theory Spec2Isabelle
  imports Complex_Main "HOL-Library.Word" "HOL-Library.Log_Nat" "HOL-Library.AList"
begin

section \<open>JavaScript values used by the HomeHub front end\<close>

text \<open>
  The scripts under verification are \<^verbatim>\<open>shortcuts-enhance.js\<close> (the status reconciler:
  \<^verbatim>\<open>toBool\<close>, \<^verbatim>\<open>applyFromText\<close>, \<^verbatim>\<open>applyFromIPX\<close>) and \<^verbatim>\<open>menu.js\<close> (the navigation
  panel). They work on JavaScript primitives, so the embedding starts with those.

  A JavaScript number is an IEEE binary64 value. The finite ones are rational numbers, so
  a number is modelled as \<open>Fin x\<close> with \<open>x\<close> rational, or one of the three special values.
  Negative zero is identified with zero: no operation of the scripts tells them apart
  (\<^verbatim>\<open>-0 !== 0\<close> is false, \<^verbatim>\<open>-0|0\<close> is \<open>0\<close>, \<^verbatim>\<open>states[-0]\<close> is \<^verbatim>\<open>states[0]\<close>).
\<close>

datatype jsnum = NaN | PosInf | NegInf | Fin rat

text \<open>
  The primitive values: \<^verbatim>\<open>undefined\<close>, \<^verbatim>\<open>null\<close>, booleans, numbers and strings. A string is
  a list of code units; the \<^typ>\<open>char\<close> of HOL covers the code units \<open>0..255\<close>.
\<close>

datatype jsval = Undefined | Null | Bool bool | Num jsnum | Str string

subsection \<open>String.prototype.trim and String.prototype.toLowerCase\<close>

text \<open>
  White space and line terminators of ECMAScript among the code units \<open>0..255\<close>:
  TAB, LF, VT, FF, CR, SPACE and NO-BREAK SPACE.
\<close>

definition isWhiteSpace :: "char \<Rightarrow> bool" where
  "isWhiteSpace c = (c \<in> {CHR 0x09, CHR 0x0A, CHR 0x0B, CHR 0x0C, CHR 0x0D, CHR 0x20, CHR 0xA0})"

definition trim :: "string \<Rightarrow> string" where
  "trim s = rev (dropWhile isWhiteSpace (rev (dropWhile isWhiteSpace s)))"

text \<open>
  Lower-casing of one code unit: \<open>A..Z\<close> and the upper-case letters \<open>0xC0..0xDE\<close> (without
  the multiplication sign \<open>0xD7\<close>) move up by \<open>0x20\<close>; every other code unit below 256 is
  its own lower case.
\<close>

definition toLowerChar :: "char \<Rightarrow> char" where
  "toLowerChar c = (let n = (of_char c :: nat)
     in if (65 \<le> n \<and> n \<le> 90) \<or> (192 \<le> n \<and> n \<le> 222 \<and> n \<noteq> 215)
        then char_of (n + 32) else c)"

definition toLowerCase :: "string \<Rightarrow> string" where
  "toLowerCase s = map toLowerChar s"

subsection \<open>toBool\<close>

text \<open>
  \<^verbatim>\<open>function toBool(v){
    if (v === true || v === false) return v;
    if (v == null) return false;
    if (typeof v === 'number') return v !== 0;
    const s = String(v).trim().toLowerCase();
    return (s === '1' || s === 'true' || s === 'on' || s === 'yes');
  }\<close>
  \<^verbatim>\<open>v == null\<close> holds for \<^verbatim>\<open>null\<close> and \<^verbatim>\<open>undefined\<close>. \<^verbatim>\<open>NaN !== 0\<close> is true. The last two
  lines are reached by strings only, and \<^verbatim>\<open>String(v)\<close> of a string is the string.
\<close>

definition toBool :: "jsval \<Rightarrow> bool" where
  "toBool v =
     (if v = Bool True \<or> v = Bool False then v = Bool True
      else if v = Null \<or> v = Undefined then False
      else case v of
          Num n \<Rightarrow> n \<noteq> Fin 0
        | Str str \<Rightarrow>
            (let s = toLowerCase (trim str)
             in s = ''1'' \<or> s = ''true'' \<or> s = ''on'' \<or> s = ''yes'')
        | _ \<Rightarrow> False)"

section \<open>Number conversions\<close>

subsection \<open>Rounding to binary64\<close>

text \<open>
  \<open>floor_log2 x\<close> is the exponent \<open>e\<close> with \<open>2^e \<le> x < 2^(e+1)\<close> for positive \<open>x\<close>, computed
  from the bit lengths of numerator and denominator.
\<close>

definition floor_log2 :: "rat \<Rightarrow> int" where
  "floor_log2 x = (let (p, q) = quotient_of x; d = bitlen p - bitlen q
                   in if power_int 2 d \<le> x then d else d - 1)"

definition round_half_even :: "rat \<Rightarrow> int" where
  "round_half_even x = (let f = \<lfloor>x\<rfloor>; d = x - of_int f
                        in if d < 1 / 2 then f else if 1 / 2 < d then f + 1
                           else if even f then f else f + 1)"

text \<open>
  The Number value of a mathematical value: round to nearest, ties to even, with 53
  significant bits and the least exponent \<open>-1022\<close> (below it the spacing stays \<open>2^-1074\<close>).
  The result is an infinity when the rounded value reaches \<open>2^1024\<close>: the exponent is
  1024 or more, or it is 1023 and the significand rounds up to \<open>2^53\<close>.
\<close>

definition toDouble :: "rat \<Rightarrow> jsnum" where
  "toDouble x = (if x = 0 then Fin 0 else
     let a = \<bar>x\<bar>; e0 = floor_log2 a
     in if 1024 \<le> e0 then (if x < 0 then NegInf else PosInf)
        else
          let e = max e0 (- 1022);
              q = power_int 2 (e - 52);
              m = round_half_even (a / q)
          in if e = 1023 \<and> m = 2 ^ 53 then (if x < 0 then NegInf else PosInf)
             else Fin (if x < 0 then - (of_int m * q) else of_int m * q))"

subsection \<open>Number(string)\<close>

text \<open>
  The StringNumericLiteral grammar of ECMAScript: white space around an optional literal;
  the literal is a signed decimal (digits, fraction, exponent, or \<^verbatim>\<open>Infinity\<close>) or an unsigned
  binary, octal or hexadecimal integer. The empty literal is \<open>0\<close>; anything else is NaN.
\<close>

definition digitValue :: "char \<Rightarrow> nat" where
  "digitValue c = (let n = (of_char c :: nat)
     in if 48 \<le> n \<and> n \<le> 57 then n - 48
        else if 97 \<le> n \<and> n \<le> 102 then n - 87
        else if 65 \<le> n \<and> n \<le> 70 then n - 55
        else 36)"

definition isDigitOfBase :: "nat \<Rightarrow> char \<Rightarrow> bool" where
  "isDigitOfBase b c = (digitValue c < b)"

definition digitsValue :: "nat \<Rightarrow> string \<Rightarrow> int" where
  "digitsValue b ds = foldl (\<lambda>acc c. acc * int b + int (digitValue c)) 0 ds"

definition NonDecimalIntegerLiteral :: "string \<Rightarrow> int option" where
  "NonDecimalIntegerLiteral s =
     (case s of
        z # p # ds \<Rightarrow>
          (let b = (if p = CHR ''x'' \<or> p = CHR ''X'' then 16
                    else if p = CHR ''o'' \<or> p = CHR ''O'' then 8
                    else if p = CHR ''b'' \<or> p = CHR ''B'' then 2 else 0)
           in if z = CHR ''0'' \<and> b \<noteq> 0 \<and> ds \<noteq> [] \<and> list_all (isDigitOfBase b) ds
              then Some (digitsValue b ds) else None)
      | _ \<Rightarrow> None)"

definition ExponentPart_opt :: "string \<Rightarrow> int option" where
  "ExponentPart_opt s =
     (case s of
        [] \<Rightarrow> Some 0
      | c # r \<Rightarrow>
          if c = CHR ''e'' \<or> c = CHR ''E'' then
            (let neg = (r \<noteq> [] \<and> hd r = CHR ''-'');
                 ds = (if r \<noteq> [] \<and> (hd r = CHR ''-'' \<or> hd r = CHR ''+'') then tl r else r)
             in if ds \<noteq> [] \<and> list_all (isDigitOfBase 10) ds
                then Some (if neg then - digitsValue 10 ds else digitsValue 10 ds)
                else None)
          else None)"

definition StrUnsignedDecimalLiteral :: "string \<Rightarrow> rat option" where
  "StrUnsignedDecimalLiteral s =
     (let ip = takeWhile (isDigitOfBase 10) s;
          r1 = dropWhile (isDigitOfBase 10) s;
          dot = (r1 \<noteq> [] \<and> hd r1 = CHR ''.'');
          fp = (if dot then takeWhile (isDigitOfBase 10) (tl r1) else []);
          r2 = (if dot then dropWhile (isDigitOfBase 10) (tl r1) else r1)
      in if ip = [] \<and> fp = [] then None
         else case ExponentPart_opt r2 of
                None \<Rightarrow> None
              | Some e \<Rightarrow>
                  Some ((of_int (digitsValue 10 ip)
                         + of_int (digitsValue 10 fp) / 10 ^ length fp) * power_int 10 e))"

definition StrDecimalLiteral :: "string \<Rightarrow> jsnum" where
  "StrDecimalLiteral s =
     (let neg = (s \<noteq> [] \<and> hd s = CHR ''-'');
          u = (if s \<noteq> [] \<and> (hd s = CHR ''-'' \<or> hd s = CHR ''+'') then tl s else s)
      in if u = ''Infinity'' then (if neg then NegInf else PosInf)
         else case StrUnsignedDecimalLiteral u of
                None \<Rightarrow> NaN
              | Some x \<Rightarrow> toDouble (if neg then - x else x))"

definition StringToNumber :: "string \<Rightarrow> jsnum" where
  "StringToNumber str =
     (let s = trim str
      in if s = [] then Fin 0
         else case NonDecimalIntegerLiteral s of
                Some n \<Rightarrow> toDouble (of_int n)
              | None \<Rightarrow> StrDecimalLiteral s)"

subsection \<open>ToNumber, ToInt32, ToBoolean, Number.isFinite\<close>

fun ToNumber :: "jsval \<Rightarrow> jsnum" where
  "ToNumber Undefined = NaN"
| "ToNumber Null = Fin 0"
| "ToNumber (Bool b) = (if b then Fin 1 else Fin 0)"
| "ToNumber (Num n) = n"
| "ToNumber (Str s) = StringToNumber s"

definition truncate_rat :: "rat \<Rightarrow> int" where
  "truncate_rat x = (if x < 0 then - \<lfloor>- x\<rfloor> else \<lfloor>x\<rfloor>)"

text \<open>
  \<^verbatim>\<open>x|0\<close>: NaN and the infinities give 0; a finite number is truncated towards zero and
  reduced modulo \<open>2^32\<close> into the signed 32-bit range.
\<close>

definition ToInt32 :: "jsnum \<Rightarrow> int" where
  "ToInt32 n = (case n of Fin x \<Rightarrow> sint (word_of_int (truncate_rat x) :: 32 word) | _ \<Rightarrow> 0)"

fun ToBoolean :: "jsval \<Rightarrow> bool" where
  "ToBoolean Undefined = False"
| "ToBoolean Null = False"
| "ToBoolean (Bool b) = b"
| "ToBoolean (Num n) = (n \<noteq> Fin 0 \<and> n \<noteq> NaN)"
| "ToBoolean (Str s) = (s \<noteq> [])"

fun isFinite :: "jsnum \<Rightarrow> bool" where
  "isFinite (Fin x) = True"
| "isFinite _ = False"

section \<open>The status reconciler\<close>

subsection \<open>DOM token lists\<close>

text \<open>
  \<^verbatim>\<open>classList\<close> is an ordered set of tokens: \<^verbatim>\<open>add\<close> appends a token that is not there yet,
  \<^verbatim>\<open>remove\<close> deletes it, \<^verbatim>\<open>toggle(token, force)\<close> adds when \<^verbatim>\<open>force\<close> is true and removes
  otherwise.
\<close>

definition classList_add :: "string \<Rightarrow> string list \<Rightarrow> string list" where
  "classList_add t cs = (if t \<in> set cs then cs else cs @ [t])"

definition classList_remove :: "string \<Rightarrow> string list \<Rightarrow> string list" where
  "classList_remove t cs = filter (\<lambda>c. c \<noteq> t) cs"

definition classList_toggle :: "string \<Rightarrow> bool \<Rightarrow> string list \<Rightarrow> string list" where
  "classList_toggle t force cs = (if force then classList_add t cs else classList_remove t cs)"

definition classList_contains :: "string \<Rightarrow> string list \<Rightarrow> bool" where
  "classList_contains t cs = (t \<in> set cs)"

subsection \<open>Controls\<close>

text \<open>
  An \<^verbatim>\<open>.icon-btn\<close> element as the script reads it: \<^verbatim>\<open>dataset.source\<close> and
  \<^verbatim>\<open>dataset.ipxIndex\<close> (\<open>None\<close> is \<^verbatim>\<open>undefined\<close>, the data attribute is absent), the
  \<^verbatim>\<open>textContent\<close> of its first \<^verbatim>\<open>.js-display\<close> descendant (\<open>None\<close> when it has none), and its
  class list.
\<close>

record control =
  source :: "string option"
  ipxIndex :: "string option"
  js_display :: "string option"
  btn_classList :: "string list"

text \<open>A dataset entry as a value: \<^verbatim>\<open>undefined\<close> when the attribute is absent.\<close>

definition dataset_val :: "string option \<Rightarrow> jsval" where
  "dataset_val a = (case a of None \<Rightarrow> Undefined | Some s \<Rightarrow> Str s)"

definition is_on :: "control \<Rightarrow> bool" where
  "is_on btn = classList_contains ''is-on'' (btn_classList btn)"

text \<open>
  \<^verbatim>\<open>function applyFromText(button){
    const disp = button.querySelector('.js-display');
    const val = disp ? disp.textContent : '';
    button.classList.toggle('is-on', toBool(val));
  }\<close>
\<close>

definition displayed_text :: "control \<Rightarrow> string" where
  "displayed_text button = (case js_display button of Some t \<Rightarrow> t | None \<Rightarrow> [])"

definition applyFromText :: "control \<Rightarrow> control" where
  "applyFromText button =
     (let val = displayed_text button
      in button\<lparr>btn_classList := classList_toggle ''is-on'' (toBool (Str val)) (btn_classList button)\<rparr>)"

subsection \<open>The fetch and its payload\<close>

text \<open>
  A promise settles: it is fulfilled with a value or rejected with an error.
\<close>

datatype js_error = TypeError | SyntaxError | OtherError

datatype 'a settled = Fulfilled 'a | Rejected js_error

text \<open>
  One element \<^verbatim>\<open>it\<close> of the array \<^verbatim>\<open>j.relays\<close>, by what \<^verbatim>\<open>it.relay\<close> and \<^verbatim>\<open>it.on\<close> give:
  \<^item> \<open>ItemNull\<close>: the element is \<^verbatim>\<open>null\<close>, reading \<^verbatim>\<open>it.relay\<close> throws a TypeError;
  \<^item> \<open>ItemObj relay on\<close>: the two property values, \<open>Undefined\<close> for an absent property
    (an element that is a number, a string, a boolean or an array has neither property).
  The property values are JSON scalars.
\<close>

datatype item = ItemNull | ItemObj jsval jsval

text \<open>
  The value of \<^verbatim>\<open>j.relays\<close> of a parsed body \<^verbatim>\<open>j\<close> other than \<^verbatim>\<open>null\<close>, by what
  \<^verbatim>\<open>(j.relays || []).forEach\<close> does with it:
  \<^item> \<open>RelaysFalsy\<close>: absent, \<^verbatim>\<open>null\<close>, \<^verbatim>\<open>false\<close>, \<^verbatim>\<open>0\<close> or \<^verbatim>\<open>""\<close>; the empty array is used;
  \<^item> \<open>RelaysNotArray\<close>: a truthy value that is not an array; it has no \<^verbatim>\<open>forEach\<close>
    function, the call throws a TypeError;
  \<^item> \<open>RelaysArray its\<close>: an array with the elements \<open>its\<close>.
\<close>

datatype relays = RelaysFalsy | RelaysNotArray | RelaysArray "item list"

datatype json_body = JsonNull | JsonValue relays

text \<open>
  The response of \<^verbatim>\<open>fetch\<close>: its \<^verbatim>\<open>ok\<close> flag and what \<^verbatim>\<open>r.json()\<close> settles to (rejected with
  a SyntaxError when the body is not JSON).
\<close>

record response =
  ok :: bool
  json :: "json_body settled"

subsection \<open>applyFromIPX\<close>

text \<open>
  The callback of \<^verbatim>\<open>(j.relays || []).forEach\<close>, run over the elements in order:
  \<^verbatim>\<open>const idx0 = (it.relay|0) - 1;
  if (idx0 >=0 && idx0 < states.length){ states[idx0] = !!it.on; }\<close>
  The result is the array when the loop is left and the error that left it, if any.
\<close>

fun forEach_relays :: "item list \<Rightarrow> bool list \<Rightarrow> bool list \<times> js_error option" where
  "forEach_relays [] states = (states, None)"
| "forEach_relays (ItemNull # rest) states = (states, Some TypeError)"
| "forEach_relays (ItemObj relay on # rest) states =
     (let idx0 = ToInt32 (ToNumber relay) - 1
      in forEach_relays rest
           (if 0 \<le> idx0 \<and> idx0 < int (length states)
            then states[nat idx0 := ToBoolean on] else states))"

text \<open>
  The \<^verbatim>\<open>try\<close> block of \<^verbatim>\<open>applyFromIPX\<close>, started with \<^verbatim>\<open>states = null\<close>: the value of \<^verbatim>\<open>states\<close>
  when the block is left (\<open>None\<close> is \<^verbatim>\<open>null\<close>) and the error thrown in it, if any.
  \<^verbatim>\<open>const r = await fetch('/ipx/status?max_relays=32', {cache:'no-store'});
  if (r.ok){
    const j = await r.json();
    states = new Array(32).fill(false);
    (j.relays || []).forEach(...);
  }\<close>
\<close>

definition try_block :: "response settled \<Rightarrow> bool list option \<times> js_error option" where
  "try_block fetched =
     (case fetched of
        Rejected e \<Rightarrow> (None, Some e)
      | Fulfilled r \<Rightarrow>
          if ok r then
            (case json r of
               Rejected e \<Rightarrow> (None, Some e)
             | Fulfilled j \<Rightarrow>
                 (let states = replicate 32 False
                  in case j of
                       JsonNull \<Rightarrow> (Some states, Some TypeError)
                     | JsonValue RelaysFalsy \<Rightarrow> (Some states, None)
                     | JsonValue RelaysNotArray \<Rightarrow> (Some states, Some TypeError)
                     | JsonValue (RelaysArray its) \<Rightarrow>
                         (let (st, err) = forEach_relays its states in (Some st, err))))
          else (None, None))"

text \<open>
  \<^verbatim>\<open>states[idx0]\<close> on the array: the element when \<^verbatim>\<open>idx0\<close> is an integer from \<open>0\<close> below the
  length, and \<^verbatim>\<open>undefined\<close> for every other number (a negative, fractional or too large
  number names a property the array does not have).
\<close>

definition states_get :: "bool list \<Rightarrow> jsnum \<Rightarrow> jsval" where
  "states_get states n =
     (case n of
        Fin x \<Rightarrow> if x = of_int \<lfloor>x\<rfloor> \<and> 0 \<le> x \<and> \<lfloor>x\<rfloor> < int (length states)
                 then Bool (states ! nat \<lfloor>x\<rfloor>) else Undefined
      | _ \<Rightarrow> Undefined)"

text \<open>
  The callback of \<^verbatim>\<open>document.querySelectorAll('.icon-btn').forEach\<close>:
  \<^verbatim>\<open>const src = btn.dataset.source;
  const idx0 = Number(btn.dataset.ipxIndex);
  if (src === 'ipx' && Number.isFinite(idx0)){
    const on = states ? !!states[idx0] : false;
    btn.classList.toggle('is-on', on);
  }else{
    applyFromText(btn);
  }\<close>
\<close>

definition idx0_of :: "control \<Rightarrow> jsnum" where
  "idx0_of btn = ToNumber (dataset_val (ipxIndex btn))"

definition applyFromIPX_btn :: "bool list option \<Rightarrow> control \<Rightarrow> control" where
  "applyFromIPX_btn states btn =
     (let src = source btn;
          idx0 = idx0_of btn
      in if src = Some ''ipx'' \<and> isFinite idx0 then
           (let on = (case states of Some st \<Rightarrow> ToBoolean (states_get st idx0) | None \<Rightarrow> False)
            in btn\<lparr>btn_classList := classList_toggle ''is-on'' on (btn_classList btn)\<rparr>)
         else applyFromText btn)"

text \<open>
  \<^verbatim>\<open>applyFromIPX\<close>: the \<^verbatim>\<open>catch\<close> drops whatever the \<^verbatim>\<open>try\<close> block threw and keeps \<^verbatim>\<open>states\<close> as
  it is; then every control is painted. The function takes what \<^verbatim>\<open>fetch\<close> settles to and
  the controls of the page, and gives what its own promise settles to.
\<close>

definition snapshot :: "response settled \<Rightarrow> bool list option" where
  "snapshot fetched = fst (try_block fetched)"

definition applyFromIPX :: "response settled \<Rightarrow> control list \<Rightarrow> control list settled" where
  "applyFromIPX fetched btns =
     (let states = snapshot fetched
      in Fulfilled (map (applyFromIPX_btn states) btns))"

text \<open>
  A finite non-negative integer, the condition on \<^verbatim>\<open>ipxIndex\<close> as the specification words it
  (the script tests \<^verbatim>\<open>Number.isFinite\<close> only).
\<close>

definition is_nonneg_integer :: "jsnum \<Rightarrow> bool" where
  "is_nonneg_integer n = (case n of Fin x \<Rightarrow> x = of_int \<lfloor>x\<rfloor> \<and> 0 \<le> x | _ \<Rightarrow> False)"

text \<open>A successful fetch whose body is an object with the array \<open>its\<close> under \<^verbatim>\<open>relays\<close>.\<close>

definition relays_response :: "item list \<Rightarrow> response settled" where
  "relays_response its = Fulfilled \<lparr>ok = True, json = Fulfilled (JsonValue (RelaysArray its))\<rparr>"

text \<open>
  A failed fetch: \<^verbatim>\<open>fetch\<close> rejects (network error), the response is not \<^verbatim>\<open>ok\<close>, or
  \<^verbatim>\<open>r.json()\<close> rejects (the body is not JSON).
\<close>

definition fetch_failed :: "response settled \<Rightarrow> bool" where
  "fetch_failed fetched =
     (case fetched of
        Rejected e \<Rightarrow> True
      | Fulfilled r \<Rightarrow> \<not> ok r \<or> (case json r of Rejected e \<Rightarrow> True | Fulfilled j \<Rightarrow> False))"

section \<open>The navigation panel\<close>

subsection \<open>Elements\<close>

text \<open>
  An element with its class list and its other attributes (name and value, each name
  once). \<^verbatim>\<open>getAttribute\<close> gives \<^verbatim>\<open>null\<close> (\<open>None\<close>) for a missing attribute.
\<close>

record element =
  classList :: "string list"
  attributes :: "(string \<times> string) list"

definition getAttribute :: "string \<Rightarrow> element \<Rightarrow> string option" where
  "getAttribute name el = map_of (attributes el) name"

definition setAttribute :: "string \<Rightarrow> string \<Rightarrow> element \<Rightarrow> element" where
  "setAttribute name v el = el\<lparr>attributes := AList.update name v (attributes el)\<rparr>"

definition add_class :: "string \<Rightarrow> element \<Rightarrow> element" where
  "add_class t el = el\<lparr>classList := classList_add t (classList el)\<rparr>"

definition remove_class :: "string \<Rightarrow> element \<Rightarrow> element" where
  "remove_class t el = el\<lparr>classList := classList_remove t (classList el)\<rparr>"

definition has_class :: "string \<Rightarrow> element \<Rightarrow> bool" where
  "has_class t el = classList_contains t (classList el)"

text \<open>
  \<^verbatim>\<open>location.pathname.replace(/\/+$/,'') || '/'\<close>: the run of slashes at the end of the path
  is removed; the empty string is falsy, so an empty result becomes \<^verbatim>\<open>/\<close>.
\<close>

definition current_path :: "string \<Rightarrow> string" where
  "current_path pathname =
     (let s = rev (dropWhile (\<lambda>c. c = CHR ''/'') (rev pathname))
      in if s = [] then ''/'' else s)"

datatype event = Click | KeyDown string

fun event_type :: "event \<Rightarrow> string" where
  "event_type Click = ''click''"
| "event_type (KeyDown k) = ''keydown''"

subsection \<open>app/ui/static/menu.js: the panel on existing anchors\<close>

text \<open>
  The page as the script sees it: the three elements looked up by id (\<open>None\<close> when
  \<^verbatim>\<open>getElementById\<close> gives \<^verbatim>\<open>null\<close>), the \<^verbatim>\<open>a.menu-item\<close> descendants of the sidebar in document
  order, and the event listeners registered so far.
\<close>

datatype target = MenuBtn | Overlay | Window

datatype handler = Toggle | Close | CloseOnEscape

record page =
  menuBtn :: "element option"
  sidebar :: "element option"
  overlay :: "element option"
  menu_items :: "element list"
  listeners :: "(target \<times> string \<times> handler) list"

text \<open>
  \<^verbatim>\<open>const open = () => {
    sidebar.classList.remove('-translate-x-full');
    overlay.classList.remove('hidden');
    btn.setAttribute('aria-expanded', 'true');
  };
  const close = () => {
    sidebar.classList.add('-translate-x-full');
    overlay.classList.add('hidden');
    btn.setAttribute('aria-expanded', 'false');
  };\<close>
\<close>

definition menu_open :: "page \<Rightarrow> page" where
  "menu_open p = p\<lparr>
     sidebar := map_option (remove_class ''-translate-x-full'') (sidebar p),
     overlay := map_option (remove_class ''hidden'') (overlay p),
     menuBtn := map_option (setAttribute ''aria-expanded'' ''true'') (menuBtn p)\<rparr>"

definition menu_close :: "page \<Rightarrow> page" where
  "menu_close p = p\<lparr>
     sidebar := map_option (add_class ''-translate-x-full'') (sidebar p),
     overlay := map_option (add_class ''hidden'') (overlay p),
     menuBtn := map_option (setAttribute ''aria-expanded'' ''false'') (menuBtn p)\<rparr>"

text \<open>
  The three listeners:
  \<^verbatim>\<open>btn.addEventListener('click', () => {
    const expanded = btn.getAttribute('aria-expanded') === 'true';
    expanded ? close() : open();
  });
  overlay.addEventListener('click', close);
  window.addEventListener('keydown', (e) => { if (e.key === 'Escape') close(); });\<close>
\<close>

definition expanded :: "page \<Rightarrow> bool" where
  "expanded p = (case menuBtn p of
                   Some btn \<Rightarrow> getAttribute ''aria-expanded'' btn = Some ''true''
                 | None \<Rightarrow> False)"

fun run_handler :: "handler \<Rightarrow> event \<Rightarrow> page \<Rightarrow> page" where
  "run_handler Toggle ev p = (if expanded p then menu_close p else menu_open p)"
| "run_handler Close ev p = menu_close p"
| "run_handler CloseOnEscape (KeyDown k) p = (if k = ''Escape'' then menu_close p else p)"
| "run_handler CloseOnEscape Click p = p"

text \<open>
  An event on a target runs the listeners registered for that target and that event
  type, in the order of registration. The three anchors are taken not to lie inside one
  another, so a click on one of them reaches no listener of another.
\<close>

definition dispatch :: "target \<Rightarrow> event \<Rightarrow> page \<Rightarrow> page" where
  "dispatch tgt ev p =
     foldl (\<lambda>q (t, ty, h). if t = tgt \<and> ty = event_type ev then run_handler h ev q else q)
       p (listeners p)"

text \<open>
  \<^verbatim>\<open>links.forEach(a => {
    const href = a.getAttribute('href');
    if (href === path) a.classList.add('active');
  });\<close>
\<close>

definition highlight :: "string \<Rightarrow> string \<Rightarrow> element \<Rightarrow> element" where
  "highlight cls path a = (if getAttribute ''href'' a = Some path then add_class cls a else a)"

text \<open>
  The script body, run once with \<^verbatim>\<open>location.pathname\<close>:
  \<^verbatim>\<open>if (!btn || !sidebar || !overlay) return;\<close>
  then the listeners are registered and the links highlighted.
\<close>

definition menu_init :: "string \<Rightarrow> page \<Rightarrow> page" where
  "menu_init pathname p =
     (if menuBtn p = None \<or> sidebar p = None \<or> overlay p = None then p
      else p\<lparr>
        listeners := listeners p @
          [(MenuBtn, ''click'', Toggle), (Overlay, ''click'', Close),
           (Window, ''keydown'', CloseOnEscape)],
        menu_items := map (highlight ''active'' (current_path pathname)) (menu_items p)\<rparr>)"

text \<open>The panel is shown, or hidden, in all three places the script writes.\<close>

definition menu_is_open :: "page \<Rightarrow> bool" where
  "menu_is_open p =
     (case (menuBtn p, sidebar p, overlay p) of
        (Some b, Some s, Some ov) \<Rightarrow>
          \<not> has_class ''-translate-x-full'' s \<and> \<not> has_class ''hidden'' ov
          \<and> getAttribute ''aria-expanded'' b = Some ''true''
      | _ \<Rightarrow> False)"

definition menu_is_closed :: "page \<Rightarrow> bool" where
  "menu_is_closed p =
     (case (menuBtn p, sidebar p, overlay p) of
        (Some b, Some s, Some ov) \<Rightarrow>
          has_class ''-translate-x-full'' s \<and> has_class ''hidden'' ov
          \<and> getAttribute ''aria-expanded'' b = Some ''false''
      | _ \<Rightarrow> False)"

subsection \<open>The self-constructing panel\<close>

text \<open>
  The other script of the same name creates its own trigger button, backdrop and panel.
  Its state: the class list of the backdrop, the inline \<^verbatim>\<open>style.transform\<close> of the panel
  (empty until first set), the links of the panel and the listeners.
\<close>

datatype panel_target = TriggerBtn | Backdrop | MenuCloseBtn | Document

datatype panel_handler = PanelOpen | PanelClose | PanelCloseOnEscape

record panel_page =
  backdrop :: element
  panel_transform :: string
  panel_links :: "element list"
  panel_listeners :: "(panel_target \<times> string \<times> panel_handler) list"

text \<open>
  \<^verbatim>\<open>function open() {
    backdrop.classList.remove('hidden');
    panel.style.transform = 'translateX(0%)';
  }
  function close() {
    backdrop.classList.add('hidden');
    panel.style.transform = 'translateX(-100%)';
  }\<close>
\<close>

definition panel_open :: "panel_page \<Rightarrow> panel_page" where
  "panel_open p = p\<lparr>backdrop := remove_class ''hidden'' (backdrop p),
                     panel_transform := ''translateX(0%)''\<rparr>"

definition panel_close :: "panel_page \<Rightarrow> panel_page" where
  "panel_close p = p\<lparr>backdrop := add_class ''hidden'' (backdrop p),
                      panel_transform := ''translateX(-100%)''\<rparr>"

text \<open>
  \<^verbatim>\<open>btn.addEventListener('click', open);
  backdrop.addEventListener('click', close);
  panel.querySelector('#menu-close').addEventListener('click', close);
  document.addEventListener('keydown', (e) => { if (e.key === 'Escape') close(); });\<close>
\<close>

fun panel_run_handler :: "panel_handler \<Rightarrow> event \<Rightarrow> panel_page \<Rightarrow> panel_page" where
  "panel_run_handler PanelOpen ev p = panel_open p"
| "panel_run_handler PanelClose ev p = panel_close p"
| "panel_run_handler PanelCloseOnEscape (KeyDown k) p =
     (if k = ''Escape'' then panel_close p else p)"
| "panel_run_handler PanelCloseOnEscape Click p = p"

definition panel_dispatch :: "panel_target \<Rightarrow> event \<Rightarrow> panel_page \<Rightarrow> panel_page" where
  "panel_dispatch tgt ev p =
     foldl (\<lambda>q (t, ty, h). if t = tgt \<and> ty = event_type ev then panel_run_handler h ev q else q)
       p (panel_listeners p)"

text \<open>
  The links the script writes into the panel, each with the classes
  \<^verbatim>\<open>block px-3 py-2 rounded hover:bg-slate-800\<close>.
\<close>

definition nav_link :: "string \<Rightarrow> element" where
  "nav_link href = \<lparr>classList = [''block'', ''px-3'', ''py-2'', ''rounded'', ''hover:bg-slate-800''],
                    attributes = [(''href'', href)]\<rparr>"

definition nav_hrefs :: "string list" where
  "nav_hrefs = [''/'', ''/events'', ''/weather'', ''/ipx'', ''/inputs'', ''/health/ui'']"

text \<open>
  The script body, run with \<^verbatim>\<open>location.pathname\<close>: the backdrop starts with the classes
  \<^verbatim>\<open>fixed inset-0 z-40 bg-black/50 hidden\<close>, the listeners are registered, and every link whose
  \<^verbatim>\<open>href\<close> is the current path gets the class \<^verbatim>\<open>bg-slate-800\<close>.
\<close>

definition panel_init :: "string \<Rightarrow> panel_page" where
  "panel_init pathname = \<lparr>
     backdrop = \<lparr>classList = [''fixed'', ''inset-0'', ''z-40'', ''bg-black/50'', ''hidden''],
                 attributes = []\<rparr>,
     panel_transform = [],
     panel_links = map (highlight ''bg-slate-800'' (current_path pathname)) (map nav_link nav_hrefs),
     panel_listeners =
       [(TriggerBtn, ''click'', PanelOpen), (Backdrop, ''click'', PanelClose),
        (MenuCloseBtn, ''click'', PanelClose), (Document, ''keydown'', PanelCloseOnEscape)]\<rparr>"

subsection \<open>Sample pages\<close>

text \<open>
  The HTML that \<^verbatim>\<open>menu.js\<close> runs on is not part of the scripts. The examples use a page with
  the three anchors in their closed state and one \<^verbatim>\<open>a.menu-item\<close> link for each given
  \<^verbatim>\<open>href\<close>.
\<close>

definition menu_item :: "string \<Rightarrow> element" where
  "menu_item href = \<lparr>classList = [''menu-item''], attributes = [(''href'', href)]\<rparr>"

definition sample_page :: "string list \<Rightarrow> page" where
  "sample_page hrefs = \<lparr>
     menuBtn = Some \<lparr>classList = [], attributes = [(''aria-expanded'', ''false'')]\<rparr>,
     sidebar = Some \<lparr>classList = [''fixed'', ''-translate-x-full''], attributes = []\<rparr>,
     overlay = Some \<lparr>classList = [''fixed'', ''hidden''], attributes = []\<rparr>,
     menu_items = map menu_item hrefs,
     listeners = []\<rparr>"

section \<open>Properties of the number conversions\<close>

text \<open>
  \<open>floor_log2\<close> is the binary exponent of a positive rational, and rounding to binary64
  leaves every integer below \<open>2^53\<close> in absolute value as it is.
\<close>

lemma floor_log2_bounds:
  assumes "0 < x"
  shows "power_int 2 (floor_log2 x) \<le> x \<and> x < power_int 2 (floor_log2 x + 1)"
proof -
  obtain p q where pq: "quotient_of x = (p, q)" by (cases "quotient_of x")
  then have q: "0 < q" and x: "x = of_int p / of_int q"
    by (auto simp: quotient_of_denom_pos quotient_of_div)
  with assms have p: "0 < p"
    by (simp add: zero_less_divide_iff)
  define bp bq where "bp = nat (bitlen p)" and "bq = nat (bitlen q)"
  have bp: "bitlen p = int bp" and bq: "bitlen q = int bq"
    by (simp_all add: bp_def bq_def bitlen_nonneg)
  have "p < 2 ^ bp" and "q < 2 ^ bq"
    using bitlen_bounds[OF p] bitlen_bounds[OF q] by (simp_all add: bp_def bq_def)
  then have bp1: "1 \<le> bp" and bq1: "1 \<le> bq"
    using p q by (cases "bp = 0"; cases "bq = 0"; simp)+
  have pb: "2 ^ (bp - 1) \<le> p" "p < 2 ^ bp" and qb: "2 ^ (bq - 1) \<le> q" "q < 2 ^ bq"
    using bitlen_bounds[OF p] bitlen_bounds[OF q] bp bq bp1 bq1
    by (auto simp: nat_diff_distrib)
  have pr: "(2::rat) ^ (bp - 1) \<le> of_int p" "of_int p < (2::rat) ^ bp"
    and qr: "(2::rat) ^ (bq - 1) \<le> of_int q" "of_int q < (2::rat) ^ bq"
  proof -
    have "(of_int (2 ^ (bp - 1)) :: rat) \<le> of_int p" "(of_int p :: rat) < of_int (2 ^ bp)"
      "(of_int (2 ^ (bq - 1)) :: rat) \<le> of_int q" "(of_int q :: rat) < of_int (2 ^ bq)"
      using pb qb by (simp_all only: of_int_le_iff of_int_less_iff)
    then show "(2::rat) ^ (bp - 1) \<le> of_int p" "of_int p < (2::rat) ^ bp"
      "(2::rat) ^ (bq - 1) \<le> of_int q" "of_int q < (2::rat) ^ bq"
      by simp_all
  qed
  have lower: "power_int 2 (int bp - int bq - 1) \<le> x"
  proof -
    have "power_int (2::rat) (int bp - int bq - 1) = 2 ^ (bp - 1) / 2 ^ bq"
      using bp1 by (simp add: power_int_diff flip: power_int_of_nat)
    also have "\<dots> \<le> of_int p / of_int q"
      using pr(1) qr(2) p q by (intro frac_le) simp_all
    finally show ?thesis by (simp add: x)
  qed
  have upper: "x < power_int 2 (int bp - int bq + 1)"
  proof -
    have "of_int p / of_int q < (2::rat) ^ bp / 2 ^ (bq - 1)"
      using pr(2) qr(1) p q by (intro frac_less) simp_all
    also have "\<dots> = power_int (2::rat) (int bp - int bq + 1)"
      using bq1 by (simp add: power_int_diff power_int_add flip: power_int_of_nat)
    finally show ?thesis by (simp add: x)
  qed
  show ?thesis
  proof (cases "power_int 2 (int bp - int bq) \<le> x")
    case True
    then have "floor_log2 x = int bp - int bq"
      by (simp add: floor_log2_def pq bp bq)
    with True upper show ?thesis by simp
  next
    case False
    then have "floor_log2 x = int bp - int bq - 1"
      by (simp add: floor_log2_def pq bp bq)
    with False lower show ?thesis by simp
  qed
qed


lemma round_half_even_of_int: "round_half_even (of_int n) = n"
  by (simp add: round_half_even_def)

lemma toDouble_of_int:
  assumes "\<bar>k\<bar> < 2 ^ 53"
  shows "toDouble (of_int k) = Fin (of_int k)"
proof (cases "k = 0")
  case True
  then show ?thesis by (simp add: toDouble_def)
next
  case False
  let ?a = "\<bar>of_int k\<bar> :: rat"
  let ?e = "floor_log2 ?a"
  have a1: "1 \<le> ?a" and a53: "?a < 2 ^ 53"
  proof -
    have "1 \<le> \<bar>k\<bar>" using False by simp
    then have "(of_int 1 :: rat) \<le> of_int \<bar>k\<bar>" by (simp only: of_int_le_iff)
    then show "1 \<le> ?a" by simp
    have "(of_int \<bar>k\<bar> :: rat) < of_int (2 ^ 53)" using assms by (simp only: of_int_less_iff)
    then show "?a < 2 ^ 53" by simp
  qed
  have pos: "0 < ?a" using a1 by simp
  note b = floor_log2_bounds [OF pos]
  have e_lo: "0 \<le> ?e"
  proof (rule ccontr)
    assume "\<not> 0 \<le> ?e"
    then have "?e + 1 \<le> 0" by simp
    then have "power_int (2::rat) (?e + 1) \<le> power_int 2 0"
      by (intro power_int_increasing) simp_all
    with b a1 show False by simp
  qed
  have e_hi: "?e \<le> 52"
  proof (rule ccontr)
    assume "\<not> ?e \<le> 52"
    then have "53 \<le> ?e" by simp
    then have "power_int (2::rat) 53 \<le> power_int 2 ?e"
      by (intro power_int_increasing) simp_all
    moreover have "power_int (2::rat) 53 = 2 ^ 53"
      using power_int_of_nat [of "2::rat" 53] by simp
    ultimately show False using b a53 by simp
  qed
  define j where "j = nat (52 - ?e)"
  have q: "power_int (2::rat) (?e - 52) = 1 / 2 ^ j"
  proof -
    have "?e - 52 = - int j" using e_hi by (simp add: j_def)
    then show ?thesis by (simp add: power_int_minus divide_inverse)
  qed
  have quot: "?a / (1 / 2 ^ j) = of_int (\<bar>k\<bar> * 2 ^ j)"
    by simp
  have m: "round_half_even (?a / (1 / 2 ^ j)) = \<bar>k\<bar> * 2 ^ j"
    unfolding quot by (rule round_half_even_of_int)
  have inv: "of_int (\<bar>k\<bar> * 2 ^ j) * (1 / 2 ^ j) = ?a"
    by simp
  have emax: "max ?e (- 1022) = ?e" using e_lo by simp
  have "toDouble (of_int k) = Fin (if (of_int k :: rat) < 0 then - ?a else ?a)"
    using False e_lo e_hi
    by (simp only: toDouble_def Let_def emax q m inv) simp
  then show ?thesis
    by (simp add: abs_if)
qed

section \<open>Properties of toBool\<close>

lemma toBool_simps:
  "toBool (Bool b) = b"
  "toBool Null = False"
  "toBool Undefined = False"
  "toBool (Num n) = (n \<noteq> Fin 0)"
  "toBool (Str str) = (toLowerCase (trim str) \<in> {''1'', ''true'', ''on'', ''yes''})"
  by (simp_all add: toBool_def Let_def)

text \<open>
  Claim C4. For every primitive value \<open>v\<close>, \<open>toBool v\<close> is true exactly when \<open>v\<close> is the
  boolean \<open>true\<close>, a number other than zero, or a string that after trimming and
  lower-casing is one of \<open>1\<close>, \<open>true\<close>, \<open>on\<close>, \<open>yes\<close>; and it is false for \<open>null\<close>,
  \<open>undefined\<close>, zero, the boolean \<open>false\<close> and the empty string.
\<close>

theorem toBool_rule:
  "(toBool v \<longleftrightarrow>
      v = Bool True
      \<or> (\<exists>n. v = Num n \<and> n \<noteq> Fin 0)
      \<or> (\<exists>s. v = Str s \<and> toLowerCase (trim s) \<in> {''1'', ''true'', ''on'', ''yes''}))
   \<and> toBool Null = False \<and> toBool Undefined = False
   \<and> toBool (Num (Fin 0)) = False \<and> toBool (Bool False) = False
   \<and> toBool (Str []) = False"
proof -
  have "toBool v \<longleftrightarrow>
      v = Bool True
      \<or> (\<exists>n. v = Num n \<and> n \<noteq> Fin 0)
      \<or> (\<exists>s. v = Str s \<and> toLowerCase (trim s) \<in> {''1'', ''true'', ''on'', ''yes''})"
    by (cases v) (simp_all add: toBool_simps)
  moreover have "toBool (Str []) = False"
    by (simp add: toBool_simps trim_def toLowerCase_def)
  ultimately show ?thesis
    by (simp add: toBool_simps)
qed

text \<open>
  The fifteen sample values of the specification, each decided through the rule.
\<close>

theorem toBool_rule_witness:
  "toBool (Bool True) \<and> \<not> toBool (Bool False) \<and> toBool (Num (Fin 1)) \<and> \<not> toBool (Num (Fin 0))
   \<and> toBool (Str ''1'') \<and> \<not> toBool (Str ''0'') \<and> toBool (Str ''true'') \<and> toBool (Str ''TRUE'')
   \<and> toBool (Str ''on'') \<and> toBool (Str ''Yes'') \<and> \<not> toBool (Str []) \<and> \<not> toBool Null
   \<and> \<not> toBool Undefined \<and> toBool (Num (Fin (7 / 2))) \<and> toBool (Num (Fin (- 1)))"
proof -
  have e: "toLowerCase (trim ''1'') = ''1''" "toLowerCase (trim ''0'') = ''0''"
    "toLowerCase (trim ''true'') = ''true''" "toLowerCase (trim ''TRUE'') = ''true''"
    "toLowerCase (trim ''on'') = ''on''" "toLowerCase (trim ''Yes'') = ''yes''"
    by code_simp+
  show ?thesis
    using toBool_rule [of "Bool True"] toBool_rule [of "Num (Fin 1)"]
      toBool_rule [of "Str ''1''"] toBool_rule [of "Str ''0''"]
      toBool_rule [of "Str ''true''"] toBool_rule [of "Str ''TRUE''"]
      toBool_rule [of "Str ''on''"] toBool_rule [of "Str ''Yes''"]
      toBool_rule [of "Num (Fin (7 / 2))"] toBool_rule [of "Num (Fin (- 1))"]
    by (simp add: e)
qed

section \<open>Properties of the status reconciler\<close>

subsection \<open>Painting one control\<close>

lemma classList_contains_toggle:
  "classList_contains t (classList_toggle t force cs) = force"
  by (auto simp: classList_contains_def classList_toggle_def classList_add_def classList_remove_def)

lemma is_on_toggle:
  "is_on (btn\<lparr>btn_classList := classList_toggle ''is-on'' on (btn_classList btn)\<rparr>) = on"
  by (simp add: is_on_def classList_contains_toggle)

lemma is_on_applyFromText: "is_on (applyFromText b) = toBool (Str (displayed_text b))"
  by (simp add: applyFromText_def Let_def is_on_toggle)

text \<open>Reading the array with a number gives a true element only at an index below its length.\<close>

lemma ToBoolean_states_get:
  "ToBoolean (states_get st n) = (\<exists>k. k < length st \<and> n = Fin (of_nat k) \<and> st ! k)"
proof (cases n)
  case (Fin x)
  show ?thesis
  proof (cases "x = of_int \<lfloor>x\<rfloor> \<and> 0 \<le> x \<and> \<lfloor>x\<rfloor> < int (length st)")
    case True
    then have x: "x = of_nat (nat \<lfloor>x\<rfloor>)" and lt: "nat \<lfloor>x\<rfloor> < length st"
      by auto
    have get: "states_get st n = Bool (st ! nat \<lfloor>x\<rfloor>)"
      using True Fin by (simp add: states_get_def)
    have "(\<exists>k. k < length st \<and> x = of_nat k \<and> st ! k) = st ! nat \<lfloor>x\<rfloor>"
    proof
      assume "\<exists>k. k < length st \<and> x = of_nat k \<and> st ! k"
      then obtain k where "x = of_nat k" "st ! k" by blast
      then show "st ! nat \<lfloor>x\<rfloor>" by simp
    next
      assume "st ! nat \<lfloor>x\<rfloor>"
      with x lt show "\<exists>k. k < length st \<and> x = of_nat k \<and> st ! k" by blast
    qed
    with get Fin show ?thesis by simp
  next
    case False
    have get: "states_get st n = Undefined"
      using False Fin by (simp add: states_get_def)
    have "\<not> (\<exists>k. k < length st \<and> x = of_nat k \<and> st ! k)"
    proof
      assume "\<exists>k. k < length st \<and> x = of_nat k \<and> st ! k"
      then obtain k where "k < length st" "x = of_nat k" by blast
      then have "x = of_int \<lfloor>x\<rfloor> \<and> 0 \<le> x \<and> \<lfloor>x\<rfloor> < int (length st)" by simp
      with False show False by blast
    qed
    with get Fin show ?thesis by simp
  qed
qed (simp_all add: states_get_def)

lemma is_on_applyFromIPX_btn:
  "is_on (applyFromIPX_btn states btn) =
     (if source btn = Some ''ipx'' \<and> isFinite (idx0_of btn)
      then (\<exists>st k. states = Some st \<and> k < length st \<and> idx0_of btn = Fin (of_nat k) \<and> st ! k)
      else toBool (Str (displayed_text btn)))"
proof (cases "source btn = Some ''ipx'' \<and> isFinite (idx0_of btn)")
  case True
  then show ?thesis
    by (cases states)
       (simp_all add: applyFromIPX_btn_def Let_def is_on_toggle ToBoolean_states_get)
next
  case False
  then have "applyFromIPX_btn states btn = applyFromText btn"
    by (auto simp: applyFromIPX_btn_def Let_def)
  with False show ?thesis
    by (auto simp: is_on_applyFromText)
qed

subsection \<open>The snapshot\<close>

lemma length_forEach_relays: "length (fst (forEach_relays its st)) = length st"
  by (induction its st rule: forEach_relays.induct) (simp_all add: Let_def)

lemma snapshot_length: "snapshot fetched = Some st \<Longrightarrow> length st = 32"
proof -
  have *: "length st' = length st0" if "forEach_relays its st0 = (st', e)" for its st0 st' e
    using length_forEach_relays[of its st0] that by simp
  assume "snapshot fetched = Some st"
  then show ?thesis
    by (auto simp: snapshot_def try_block_def Let_def
        split: settled.splits if_splits json_body.splits relays.splits prod.splits
        dest: *)
qed

lemma snapshot_failed: "fetch_failed fetched \<Longrightarrow> snapshot fetched = None"
  by (auto simp: fetch_failed_def snapshot_def try_block_def split: settled.splits)

subsection \<open>Every control is painted\<close>

text \<open>
  Claim C3, as the script has it. For every control that \<open>applyFromIPX\<close> processes: when its
  source is \<open>ipx\<close> and the number read from its \<open>ipxIndex\<close> is finite, the control is on
  exactly when the snapshot is not null, the index is an integer from 0 to 31 and that
  slot is true (so it is off for a null snapshot and for an index that is 32 or more,
  negative or fractional); every other control is on exactly when \<open>toBool\<close> of its
  displayed text is true.
\<close>

theorem reconcile_on_state:
  assumes "i < length btns"
  shows "\<exists>btns'. applyFromIPX fetched btns = Fulfilled btns' \<and> length btns' = length btns \<and>
           is_on (btns' ! i) =
             (if source (btns ! i) = Some ''ipx'' \<and> isFinite (idx0_of (btns ! i))
              then (\<exists>st k. snapshot fetched = Some st \<and> k < 32 \<and>
                      idx0_of (btns ! i) = Fin (of_nat k) \<and> st ! k)
              else toBool (Str (displayed_text (btns ! i))))"
proof -
  let ?btns' = "map (applyFromIPX_btn (snapshot fetched)) btns"
  have "applyFromIPX fetched btns = Fulfilled ?btns'"
    by (simp add: applyFromIPX_def)
  moreover have "length ?btns' = length btns" by simp
  moreover have "is_on (?btns' ! i) =
             (if source (btns ! i) = Some ''ipx'' \<and> isFinite (idx0_of (btns ! i))
              then (\<exists>st k. snapshot fetched = Some st \<and> k < 32 \<and>
                      idx0_of (btns ! i) = Fin (of_nat k) \<and> st ! k)
              else toBool (Str (displayed_text (btns ! i))))"
    using assms snapshot_length[of fetched]
    by (auto simp: is_on_applyFromIPX_btn)
  ultimately show ?thesis by blast
qed

text \<open>
  A control on relay index 0 with the first relay reported on ends on.
\<close>

theorem reconcile_on_state_witness:
  "(0::nat) < length [\<lparr>source = Some ''ipx'', ipxIndex = Some ''0'', js_display = Some ''off'',
                       btn_classList = [''icon-btn'']\<rparr>]
   \<and> (\<exists>btns'. applyFromIPX (relays_response [ItemObj (Num (Fin 1)) (Bool True)])
                 [\<lparr>source = Some ''ipx'', ipxIndex = Some ''0'', js_display = Some ''off'',
                   btn_classList = [''icon-btn'']\<rparr>] = Fulfilled btns'
               \<and> length btns' = 1 \<and> is_on (btns' ! 0))"
proof -
  let ?c = "\<lparr>source = Some ''ipx'', ipxIndex = Some ''0'', js_display = Some ''off'',
             btn_classList = [''icon-btn'']\<rparr>"
  let ?f = "relays_response [ItemObj (Num (Fin 1)) (Bool True)]"
  have h: "(0::nat) < length [?c]" by simp
  have src: "source ?c = Some ''ipx''" by simp
  have idx: "idx0_of ?c = Fin (of_nat 0)" by code_simp
  have snap: "snapshot ?f = Some (True # replicate 31 False)" by code_simp
  have "\<exists>st k. snapshot ?f = Some st \<and> k < 32 \<and> idx0_of ?c = Fin (of_nat k) \<and> st ! k"
    using idx snap by (intro exI[of _ "True # replicate 31 False"] exI[of _ 0]) simp
  with reconcile_on_state [OF h, of ?f] src idx h show ?thesis
    by auto
qed

text \<open>
  The claim as first worded sends an \<open>ipx\<close> control whose index is not a non-negative
  integer to the text fallback. The control below has the index \<open>-1\<close> and displays \<open>ON\<close>:
  its index is finite, so it takes the index branch and ends off.
\<close>

theorem reconcile_on_state_counterexample:
  "source \<lparr>source = Some ''ipx'', ipxIndex = Some ''-1'', js_display = Some ''ON'',
           btn_classList = [''icon-btn'']\<rparr> = Some ''ipx''
   \<and> \<not> is_nonneg_integer (idx0_of \<lparr>source = Some ''ipx'', ipxIndex = Some ''-1'',
           js_display = Some ''ON'', btn_classList = [''icon-btn'']\<rparr>)
   \<and> toBool (Str (displayed_text \<lparr>source = Some ''ipx'', ipxIndex = Some ''-1'',
           js_display = Some ''ON'', btn_classList = [''icon-btn'']\<rparr>))
   \<and> applyFromIPX (relays_response [])
        [\<lparr>source = Some ''ipx'', ipxIndex = Some ''-1'', js_display = Some ''ON'',
          btn_classList = [''icon-btn'']\<rparr>]
      = Fulfilled [\<lparr>source = Some ''ipx'', ipxIndex = Some ''-1'', js_display = Some ''ON'',
          btn_classList = [''icon-btn'']\<rparr>]
   \<and> \<not> is_on \<lparr>source = Some ''ipx'', ipxIndex = Some ''-1'', js_display = Some ''ON'',
          btn_classList = [''icon-btn'']\<rparr>"
  by code_simp

subsection \<open>A failed fetch\<close>

text \<open>
  Claim C5. When the status fetch fails (\<open>fetch\<close> rejects, the response is not ok, or the
  body is not JSON), \<open>applyFromIPX\<close> still settles as fulfilled, the snapshot is null,
  every \<open>ipx\<close> control with a finite index is painted off, and every other control is
  painted from its displayed text.
\<close>

theorem failed_fetch_fallback:
  assumes "fetch_failed fetched"
  shows "snapshot fetched = None \<and>
         (\<exists>btns'. applyFromIPX fetched btns = Fulfilled btns' \<and> length btns' = length btns \<and>
            (\<forall>i < length btns.
               is_on (btns' ! i) =
                 (if source (btns ! i) = Some ''ipx'' \<and> isFinite (idx0_of (btns ! i)) then False
                  else toBool (Str (displayed_text (btns ! i))))))"
proof -
  have none: "snapshot fetched = None"
    using assms by (rule snapshot_failed)
  let ?btns' = "map (applyFromIPX_btn None) btns"
  have "applyFromIPX fetched btns = Fulfilled ?btns'"
    by (simp add: applyFromIPX_def none)
  moreover have "\<forall>i < length btns.
               is_on (?btns' ! i) =
                 (if source (btns ! i) = Some ''ipx'' \<and> isFinite (idx0_of (btns ! i)) then False
                  else toBool (Str (displayed_text (btns ! i))))"
    by (simp add: is_on_applyFromIPX_btn)
  ultimately show ?thesis
    using none by auto
qed

text \<open>
  The scenario of the specification: the fetch is rejected; the control on \<open>ipx\<close> index 2
  ends off, the control with source \<open>other\<close> that displays \<open>ON\<close> ends on.
\<close>

theorem failed_fetch_fallback_witness:
  "fetch_failed (Rejected TypeError)
   \<and> snapshot (Rejected TypeError) = None
   \<and> (\<exists>btns'. applyFromIPX (Rejected TypeError)
          [\<lparr>source = Some ''ipx'', ipxIndex = Some ''2'', js_display = Some ''ON'',
            btn_classList = [''icon-btn'', ''is-on'']\<rparr>,
           \<lparr>source = Some ''other'', ipxIndex = None, js_display = Some ''ON'',
            btn_classList = [''icon-btn'']\<rparr>] = Fulfilled btns'
        \<and> length btns' = 2 \<and> \<not> is_on (btns' ! 0) \<and> is_on (btns' ! 1))"
proof -
  let ?c1 = "\<lparr>source = Some ''ipx'', ipxIndex = Some ''2'', js_display = Some ''ON'',
            btn_classList = [''icon-btn'', ''is-on'']\<rparr>"
  let ?c2 = "\<lparr>source = Some ''other'', ipxIndex = None, js_display = Some ''ON'',
            btn_classList = [''icon-btn'']\<rparr>"
  have h: "fetch_failed (Rejected TypeError)"
    by (simp add: fetch_failed_def)
  have c1: "source ?c1 = Some ''ipx'' \<and> isFinite (idx0_of ?c1)" by code_simp
  have c2: "source ?c2 \<noteq> Some ''ipx''" by simp
  have t2: "toBool (Str (displayed_text ?c2))" by code_simp
  from failed_fetch_fallback [OF h, of "[?c1, ?c2]"]
  obtain btns' where
    ap: "applyFromIPX (Rejected TypeError) [?c1, ?c2] = Fulfilled btns'"
    and len: "length btns' = length [?c1, ?c2]"
    and on: "\<forall>i < length [?c1, ?c2].
               is_on (btns' ! i) =
                 (if source ([?c1, ?c2] ! i) = Some ''ipx'' \<and> isFinite (idx0_of ([?c1, ?c2] ! i))
                  then False else toBool (Str (displayed_text ([?c1, ?c2] ! i))))"
    and none: "snapshot (Rejected TypeError) = None"
    by blast
  have "is_on (btns' ! 0) =
      (if source ?c1 = Some ''ipx'' \<and> isFinite (idx0_of ?c1) then False
       else toBool (Str (displayed_text ?c1)))"
    using on [rule_format, of 0] by simp
  with c1 have off: "\<not> is_on (btns' ! 0)" by simp
  have "is_on (btns' ! 1) =
      (if source ?c2 = Some ''ipx'' \<and> isFinite (idx0_of ?c2) then False
       else toBool (Str (displayed_text ?c2)))"
    using on [rule_format, of 1] by simp
  with c2 t2 have on2: "is_on (btns' ! 1)" by simp
  from h none ap len off on2 show ?thesis by auto
qed

subsection \<open>A blank index\<close>

lemma trim_all_white: "list_all isWhiteSpace s \<Longrightarrow> trim s = []"
  by (auto simp: trim_def list_all_iff dest: set_dropWhileD)

text \<open>
  Claim C10. A control with source \<open>ipx\<close> whose \<open>ipxIndex\<close> attribute is empty or white
  space only has the index \<open>0\<close>, because \<open>Number\<close> of such a string is the finite number
  \<open>0\<close>: it is on exactly when the snapshot is not null and slot \<open>0\<close> is true, whatever text
  it displays.
\<close>

theorem blank_ipxIndex_reads_slot_0:
  assumes "i < length btns"
    and "source (btns ! i) = Some ''ipx''"
    and "ipxIndex (btns ! i) = Some s"
    and "list_all isWhiteSpace s"
  shows "StringToNumber s = Fin 0 \<and>
         (\<exists>btns'. applyFromIPX fetched btns = Fulfilled btns' \<and>
            is_on (btns' ! i) = (\<exists>st. snapshot fetched = Some st \<and> st ! 0))"
proof -
  have num: "StringToNumber s = Fin 0"
    using assms(4) by (simp add: StringToNumber_def trim_all_white)
  then have idx: "idx0_of (btns ! i) = Fin (of_nat 0)"
    using assms(3) by (simp add: idx0_of_def dataset_val_def)
  let ?btns' = "map (applyFromIPX_btn (snapshot fetched)) btns"
  have ap: "applyFromIPX fetched btns = Fulfilled ?btns'"
    by (simp add: applyFromIPX_def)
  have "is_on (?btns' ! i) = (\<exists>st. snapshot fetched = Some st \<and> st ! 0)"
    using assms(1,2) idx snapshot_length[of fetched]
    by (auto simp: is_on_applyFromIPX_btn)
  with num ap show ?thesis by blast
qed

text \<open>
  A control with a one-space index that displays \<open>off\<close> ends on when the first relay is on.
\<close>

theorem blank_ipxIndex_reads_slot_0_witness:
  "(0::nat) < length [\<lparr>source = Some ''ipx'', ipxIndex = Some '' '', js_display = Some ''off'',
                       btn_classList = [''icon-btn'']\<rparr>]
   \<and> list_all isWhiteSpace '' ''
   \<and> StringToNumber '' '' = Fin 0
   \<and> (\<exists>btns'. applyFromIPX (relays_response [ItemObj (Num (Fin 1)) (Bool True)])
          [\<lparr>source = Some ''ipx'', ipxIndex = Some '' '', js_display = Some ''off'',
            btn_classList = [''icon-btn'']\<rparr>] = Fulfilled btns'
        \<and> is_on (btns' ! 0))"
proof -
  let ?c = "\<lparr>source = Some ''ipx'', ipxIndex = Some '' '', js_display = Some ''off'',
             btn_classList = [''icon-btn'']\<rparr>"
  let ?f = "relays_response [ItemObj (Num (Fin 1)) (Bool True)]"
  have h1: "(0::nat) < length [?c]" by simp
  have h2: "source ([?c] ! 0) = Some ''ipx''" by simp
  have h3: "ipxIndex ([?c] ! 0) = Some '' ''" by simp
  have h4: "list_all isWhiteSpace '' ''" by code_simp
  have snap: "snapshot ?f = Some (True # replicate 31 False)" by code_simp
  then have "\<exists>st. snapshot ?f = Some st \<and> st ! 0" by simp
  with blank_ipxIndex_reads_slot_0 [OF h1 h2 h3 h4, of ?f] h1 h4 show ?thesis
    by auto
qed

subsection \<open>Building the snapshot from the payload\<close>

text \<open>
  A \<^verbatim>\<open>null\<close> element stops the loop; up to there the elements are run one after the other.
\<close>

lemma forEach_relays_append:
  "forEach_relays (xs @ zs) st =
     (if ItemNull \<in> set xs then forEach_relays xs st
      else forEach_relays zs (fst (forEach_relays xs st)))"
  by (induction xs st rule: forEach_relays.induct) (simp_all add: Let_def)



lemma try_block_relays_response:
  "try_block (relays_response its) =
     (Some (fst (forEach_relays its (replicate 32 False))),
      snd (forEach_relays its (replicate 32 False)))"
  by (simp add: try_block_def relays_response_def Let_def split: prod.splits)

lemma forEach_relays_ignored:
  assumes "ToInt32 (ToNumber relay) \<notin> {1..32}" and "length st = 32"
  shows "forEach_relays (ItemObj relay on # ys) st = forEach_relays ys st"
  using assms by (auto simp: Let_def)





text \<open>
  Claim C2, as the script has it. An entry whose \<^verbatim>\<open>relay\<close> value, coerced with \<^verbatim>\<open>relay|0\<close>,
  lies outside 1 to 32 is ignored: run alone it leaves every slot as it was and throws
  nothing, and the whole \<^verbatim>\<open>try\<close> block ends with the same snapshot and the same error, if
  any, as for the payload without that entry.
\<close>

theorem ignored_relay_entry:
  assumes "ToInt32 (ToNumber relay) \<notin> {1..32}"
  shows "(length states = 32 \<longrightarrow> forEach_relays [ItemObj relay on] states = (states, None))
         \<and> try_block (relays_response (xs @ ItemObj relay on # ys))
             = try_block (relays_response (xs @ ys))"
proof -
  let ?st0 = "replicate 32 False"
  have one: "forEach_relays [ItemObj relay on] states = (states, None)" if "length states = 32"
    using assms that by (auto simp: Let_def)
  have len: "length (fst (forEach_relays xs ?st0)) = 32"
    by (simp add: length_forEach_relays)
  have "forEach_relays (xs @ ItemObj relay on # ys) ?st0 = forEach_relays (xs @ ys) ?st0"
    using forEach_relays_ignored [OF assms len, of on ys]
    by (simp add: forEach_relays_append)
  then have "try_block (relays_response (xs @ ItemObj relay on # ys))
             = try_block (relays_response (xs @ ys))"
    by (simp add: try_block_relays_response)
  with one show ?thesis by blast
qed

text \<open>
  An entry for relay 33 between two good entries changes nothing.
\<close>

theorem ignored_relay_entry_witness:
  "ToInt32 (ToNumber (Num (Fin 33))) \<notin> {1..32}
   \<and> length (replicate 32 False) = 32
   \<and> forEach_relays [ItemObj (Num (Fin 33)) (Bool True)] (replicate 32 False)
       = (replicate 32 False, None)
   \<and> try_block (relays_response
         ([ItemObj (Num (Fin 1)) (Bool True)] @ ItemObj (Num (Fin 33)) (Bool True)
            # [ItemObj (Num (Fin 2)) (Bool True)]))
       = try_block (relays_response
           ([ItemObj (Num (Fin 1)) (Bool True)] @ [ItemObj (Num (Fin 2)) (Bool True)]))"
proof -
  have e33: "ToInt32 (ToNumber (Num (Fin 33))) = 33" by code_simp
  then have h: "ToInt32 (ToNumber (Num (Fin 33))) \<notin> {1..32}" by simp
  from ignored_relay_entry [OF h, of "replicate 32 False" "Bool True"
      "[ItemObj (Num (Fin 1)) (Bool True)]" "[ItemObj (Num (Fin 2)) (Bool True)]"] h
  show ?thesis by simp
qed

text \<open>
  The claim as first worded has every non-integer and every out-of-range \<^verbatim>\<open>relay\<close>
  ignored. The value 1.5 is truncated to 1, and \<open>4294967297 = 2^32 + 1\<close> is reduced to 1:
  both entries write slot 0.
\<close>

theorem ignored_relay_entry_counterexample:
  "fst (forEach_relays [ItemObj (Num (Fin (3 / 2))) (Bool True)] (replicate 32 False))
     \<noteq> replicate 32 False
   \<and> fst (forEach_relays [ItemObj (Num (Fin 4294967297)) (Bool True)] (replicate 32 False))
     \<noteq> replicate 32 False"
  by code_simp

section \<open>Properties of the navigation panel\<close>

subsection \<open>Closing\<close>

lemma classList_add_idem: "classList_add t (classList_add t cs) = classList_add t cs"
  by (simp add: classList_add_def)

lemma add_class_idem: "add_class t (add_class t el) = add_class t el"
  by (simp add: add_class_def classList_add_idem)

lemma setAttribute_idem: "setAttribute k v (setAttribute k v el) = setAttribute k v el"
  by (simp add: setAttribute_def update_triv update_conv')

lemma has_class_add: "has_class t (add_class t el)"
  by (simp add: has_class_def add_class_def classList_contains_def classList_add_def)

lemma has_class_remove: "\<not> has_class t (remove_class t el)"
  by (simp add: has_class_def remove_class_def classList_contains_def classList_remove_def)

lemma getAttribute_setAttribute: "getAttribute k (setAttribute k v el) = Some v"
  by (simp add: getAttribute_def setAttribute_def update_conv')

text \<open>
  Claim C7. \<open>close()\<close> is idempotent in both scripts: closing twice leaves the page (the
  sidebar and overlay classes and the \<^verbatim>\<open>aria-expanded\<close> flag of the trigger in one script,
  the backdrop classes and the panel transform in the other) as closing once does.
\<close>

theorem close_idempotent:
  "menu_close (menu_close p) = menu_close p \<and> panel_close (panel_close q) = panel_close q"
proof
  show "menu_close (menu_close p) = menu_close p"
    by (cases "sidebar p"; cases "overlay p"; cases "menuBtn p")
       (simp_all add: menu_close_def add_class_idem setAttribute_idem)
  show "panel_close (panel_close q) = panel_close q"
    by (simp add: panel_close_def add_class_idem)
qed

theorem close_idempotent_witness:
  "menu_close (menu_close (sample_page [''/'']))  = menu_close (sample_page [''/''])
   \<and> panel_close (panel_close (panel_open (panel_init ''/'')))
       = panel_close (panel_open (panel_init ''/''))"
  using close_idempotent [of "sample_page [''/'']" "panel_open (panel_init ''/'')"] by simp

subsection \<open>Missing anchors\<close>

text \<open>
  Claim C9. When the trigger, the sidebar or the overlay is missing, the script returns
  at once: the page is unchanged, no listener is registered, and every later event does
  what it did without the script.
\<close>

theorem missing_anchor_no_op:
  assumes "menuBtn p = None \<or> sidebar p = None \<or> overlay p = None"
  shows "menu_init pathname p = p
         \<and> listeners (menu_init pathname p) = listeners p
         \<and> dispatch tgt ev (menu_init pathname p) = dispatch tgt ev p"
  using assms by (auto simp: menu_init_def)

text \<open>A page without the overlay.\<close>

theorem missing_anchor_no_op_witness:
  "(menuBtn ((sample_page [''/events''])\<lparr>overlay := None\<rparr>) = None
    \<or> sidebar ((sample_page [''/events''])\<lparr>overlay := None\<rparr>) = None
    \<or> overlay ((sample_page [''/events''])\<lparr>overlay := None\<rparr>) = None)
   \<and> menu_init ''/events/'' ((sample_page [''/events''])\<lparr>overlay := None\<rparr>)
       = (sample_page [''/events''])\<lparr>overlay := None\<rparr>
   \<and> listeners (menu_init ''/events/'' ((sample_page [''/events''])\<lparr>overlay := None\<rparr>)) = []"
proof -
  let ?p = "(sample_page [''/events''])\<lparr>overlay := None\<rparr>"
  have h: "menuBtn ?p = None \<or> sidebar ?p = None \<or> overlay ?p = None" by simp
  have l: "listeners ?p = []" by (simp add: sample_page_def)
  from missing_anchor_no_op [OF h, of "''/events/''"] h l show ?thesis by simp
qed

subsection \<open>The trigger\<close>

lemma listeners_menu_open [simp]: "listeners (menu_open p) = listeners p"
  by (simp add: menu_open_def)

lemma listeners_menu_close [simp]: "listeners (menu_close p) = listeners p"
  by (simp add: menu_close_def)

lemma dispatch_click_toggle:
  assumes "listeners p =
     [(MenuBtn, ''click'', Toggle), (Overlay, ''click'', Close), (Window, ''keydown'', CloseOnEscape)]"
  shows "dispatch MenuBtn Click p = (if expanded p then menu_close p else menu_open p)"
  using assms by (simp add: dispatch_def)

lemma menu_is_open_menu_open:
  assumes "menuBtn p \<noteq> None" "sidebar p \<noteq> None" "overlay p \<noteq> None"
  shows "menu_is_open (menu_open p)"
  using assms
  by (auto simp: menu_is_open_def menu_open_def has_class_remove getAttribute_setAttribute)

lemma menu_is_closed_menu_close:
  assumes "menuBtn p \<noteq> None" "sidebar p \<noteq> None" "overlay p \<noteq> None"
  shows "menu_is_closed (menu_close p)"
  using assms
  by (auto simp: menu_is_closed_def menu_close_def has_class_add getAttribute_setAttribute)

lemma expanded_menu_open: "menuBtn p \<noteq> None \<Longrightarrow> expanded (menu_open p)"
  by (auto simp: expanded_def menu_open_def getAttribute_setAttribute)

text \<open>
  Claim C6, for the script on existing anchors. On a page with the three anchors, no
  listener registered before and the \<^verbatim>\<open>aria-expanded\<close> flag of the trigger not \<open>true\<close>, the
  first click on the trigger after initialization opens the panel and the second click
  closes it.
\<close>

theorem trigger_toggles:
  assumes "menuBtn p = Some b" and "sidebar p \<noteq> None" and "overlay p \<noteq> None"
    and "listeners p = []"
    and "getAttribute ''aria-expanded'' b \<noteq> Some ''true''"
  shows "menu_is_open (dispatch MenuBtn Click (menu_init pathname p))
         \<and> menu_is_closed (dispatch MenuBtn Click (dispatch MenuBtn Click (menu_init pathname p)))"
proof -
  let ?p0 = "menu_init pathname p"
  let ?ls = "[(MenuBtn, ''click'', Toggle), (Overlay, ''click'', Close),
              (Window, ''keydown'', CloseOnEscape)]"
  have anchors: "menuBtn ?p0 = Some b" "sidebar ?p0 \<noteq> None" "overlay ?p0 \<noteq> None"
    and ls: "listeners ?p0 = ?ls"
    using assms by (auto simp: menu_init_def)
  have "\<not> expanded ?p0"
    using anchors(1) assms(5) by (simp add: expanded_def)
  then have p1: "dispatch MenuBtn Click ?p0 = menu_open ?p0"
    using ls by (simp add: dispatch_click_toggle)
  have opened: "menu_is_open (menu_open ?p0)"
    using anchors by (intro menu_is_open_menu_open) simp_all
  have exp1: "expanded (menu_open ?p0)"
    using anchors(1) by (intro expanded_menu_open) simp
  have ls1: "listeners (menu_open ?p0) = ?ls"
    using ls by simp
  have p2: "dispatch MenuBtn Click (menu_open ?p0) = menu_close (menu_open ?p0)"
    using exp1 ls1 by (simp add: dispatch_click_toggle)
  have anchors1: "menuBtn (menu_open ?p0) \<noteq> None" "sidebar (menu_open ?p0) \<noteq> None"
    "overlay (menu_open ?p0) \<noteq> None"
    using anchors by (auto simp: menu_open_def)
  have closed: "menu_is_closed (menu_close (menu_open ?p0))"
    using anchors1 by (rule menu_is_closed_menu_close)
  from p1 p2 opened closed show ?thesis by simp
qed


theorem trigger_toggles_witness:
  "menuBtn (sample_page [''/'', ''/events''])
     = Some \<lparr>classList = [], attributes = [(''aria-expanded'', ''false'')]\<rparr>
   \<and> sidebar (sample_page [''/'', ''/events'']) \<noteq> None
   \<and> overlay (sample_page [''/'', ''/events'']) \<noteq> None
   \<and> listeners (sample_page [''/'', ''/events'']) = []
   \<and> getAttribute ''aria-expanded'' \<lparr>classList = [], attributes = [(''aria-expanded'', ''false'')]\<rparr>
       \<noteq> Some ''true''
   \<and> menu_is_open (dispatch MenuBtn Click (menu_init ''/events/'' (sample_page [''/'', ''/events''])))
   \<and> menu_is_closed (dispatch MenuBtn Click (dispatch MenuBtn Click
         (menu_init ''/events/'' (sample_page [''/'', ''/events'']))))"
proof -
  let ?p = "sample_page [''/'', ''/events'']"
  let ?b = "\<lparr>classList = [], attributes = [(''aria-expanded'', ''false'')]\<rparr>"
  have h1: "menuBtn ?p = Some ?b" and h2: "sidebar ?p \<noteq> None" and h3: "overlay ?p \<noteq> None"
    and h4: "listeners ?p = []"
    by (simp_all add: sample_page_def)
  have h5: "getAttribute ''aria-expanded'' ?b \<noteq> Some ''true''"
    by (simp add: getAttribute_def)
  from trigger_toggles [OF h1 h2 h3 h4 h5, of "''/events/''"] h1 h2 h3 h4 h5
  show ?thesis by blast
qed

text \<open>
  The self-constructing script has no expanded flag and registers \<open>open\<close> alone on its
  trigger: the backdrop starts hidden, and after two clicks on the trigger it is shown and
  the panel is moved in, so the panel is open.
\<close>

theorem trigger_toggles_counterexample:
  "has_class ''hidden'' (backdrop (panel_init ''/''))
   \<and> \<not> has_class ''hidden''
        (backdrop (panel_dispatch TriggerBtn Click (panel_dispatch TriggerBtn Click (panel_init ''/''))))
   \<and> panel_transform (panel_dispatch TriggerBtn Click (panel_dispatch TriggerBtn Click (panel_init ''/'')))
       = ''translateX(0%)''"
  by code_simp

subsection \<open>The active link\<close>

lemma has_class_highlight:
  "has_class c (highlight c r a) \<longleftrightarrow> has_class c a \<or> getAttribute ''href'' a = Some r"
  by (simp add: highlight_def has_class_add)

lemma count_href_le_1:
  "distinct (List.map_filter (getAttribute ''href'') xs) \<Longrightarrow>
     length (filter (\<lambda>a. getAttribute ''href'' a = Some r) xs) \<le> 1"
proof (induction xs)
  case Nil
  then show ?case by simp
next
  case (Cons a xs)
  show ?case
  proof (cases "getAttribute ''href'' a = Some r")
    case True
    with Cons.prems have "r \<notin> set (List.map_filter (getAttribute ''href'') xs)"
      and d: "distinct (List.map_filter (getAttribute ''href'') xs)"
      by simp_all
    then have "filter (\<lambda>a. getAttribute ''href'' a = Some r) xs = []"
      by (auto simp: filter_empty_conv map_filter_def image_iff)
    with True show ?thesis by simp
  next
    case False
    with Cons.prems have "distinct (List.map_filter (getAttribute ''href'') xs)"
      by (cases "getAttribute ''href'' a") simp_all
    with Cons.IH False show ?thesis by simp
  qed
qed

lemma filter_highlight:
  assumes "\<forall>a \<in> set xs. \<not> has_class c a"
  shows "length (filter (has_class c) (map (highlight c r) xs))
         = length (filter (\<lambda>a. getAttribute ''href'' a = Some r) xs)"
proof -
  have "filter (has_class c \<circ> highlight c r) xs = filter (\<lambda>a. getAttribute ''href'' a = Some r) xs"
    using assms by (intro filter_cong) (auto simp: has_class_highlight)
  then show ?thesis
    by (simp add: filter_map)
qed

lemma dropWhile_replicate_append:
  "dropWhile (\<lambda>x. x = c) (replicate n c @ ys) = dropWhile (\<lambda>x. x = c) ys"
  by (induction n) simp_all

lemma current_path_strip:
  assumes "r = [] \<or> last r \<noteq> CHR ''/''"
  shows "current_path (r @ replicate n (CHR ''/'')) = (if r = [] then ''/'' else r)"
proof -
  have "rev r = [] \<or> hd (rev r) \<noteq> CHR ''/''"
    using assms by (auto simp: hd_rev)
  then have "dropWhile (\<lambda>c. c = CHR ''/'') (rev r) = rev r"
    by (cases "rev r") auto
  then have "rev (dropWhile (\<lambda>c. c = CHR ''/'') (rev (r @ replicate n (CHR ''/'')))) = r"
    by (simp add: dropWhile_replicate_append)
  then show ?thesis
    by (simp add: current_path_def Let_def)
qed

lemma nav_link_props:
  "\<not> has_class ''bg-slate-800'' (nav_link h)" "getAttribute ''href'' (nav_link h) = Some h"
  by (simp_all add: nav_link_def has_class_def classList_contains_def getAttribute_def)

text \<open>
  Claim C8, as the scripts have it. The current route is the path without its run of
  trailing slashes, and \<open>/\<close> when nothing is left. On a page with the three anchors where
  no link carries the class \<open>active\<close> beforehand, a link is active after initialization
  exactly when its \<^verbatim>\<open>href\<close> is the route; at most one link is active when the \<^verbatim>\<open>href\<close>
  values of the links are pairwise distinct. The self-constructing script marks, among its
  six links, exactly those whose \<^verbatim>\<open>href\<close> is the route, and that is at most one.
\<close>

theorem highlight_current_route:
  assumes "menuBtn p \<noteq> None" and "sidebar p \<noteq> None" and "overlay p \<noteq> None"
    and "\<forall>a \<in> set (menu_items p). \<not> has_class ''active'' a"
  shows "(\<forall>r n. (r = [] \<or> last r \<noteq> CHR ''/'') \<longrightarrow>
            current_path (r @ replicate n (CHR ''/'')) = (if r = [] then ''/'' else r))
    \<and> length (menu_items (menu_init pathname p)) = length (menu_items p)
    \<and> (\<forall>i < length (menu_items p).
          has_class ''active'' (menu_items (menu_init pathname p) ! i)
          \<longleftrightarrow> getAttribute ''href'' (menu_items p ! i) = Some (current_path pathname))
    \<and> (distinct (List.map_filter (getAttribute ''href'') (menu_items p)) \<longrightarrow>
          length (filter (has_class ''active'') (menu_items (menu_init pathname p))) \<le> 1)
    \<and> length (panel_links (panel_init pathname)) = length nav_hrefs
    \<and> (\<forall>i < length nav_hrefs.
          has_class ''bg-slate-800'' (panel_links (panel_init pathname) ! i)
          \<longleftrightarrow> nav_hrefs ! i = current_path pathname)
    \<and> length (filter (has_class ''bg-slate-800'') (panel_links (panel_init pathname))) \<le> 1"
proof -
  let ?r = "current_path pathname"
  have items: "menu_items (menu_init pathname p) = map (highlight ''active'' ?r) (menu_items p)"
    using assms(1-3) by (auto simp: menu_init_def)
  have a: "\<forall>r n. (r = [] \<or> last r \<noteq> CHR ''/'') \<longrightarrow>
            current_path (r @ replicate n (CHR ''/'')) = (if r = [] then ''/'' else r)"
    using current_path_strip by blast
  have b: "length (menu_items (menu_init pathname p)) = length (menu_items p)"
    by (simp add: items)
  have c: "\<forall>i < length (menu_items p).
          has_class ''active'' (menu_items (menu_init pathname p) ! i)
          \<longleftrightarrow> getAttribute ''href'' (menu_items p ! i) = Some ?r"
    using assms(4) by (simp add: items has_class_highlight)
  have d: "distinct (List.map_filter (getAttribute ''href'') (menu_items p)) \<longrightarrow>
          length (filter (has_class ''active'') (menu_items (menu_init pathname p))) \<le> 1"
  proof
    assume dist: "distinct (List.map_filter (getAttribute ''href'') (menu_items p))"
    have "length (filter (has_class ''active'') (map (highlight ''active'' ?r) (menu_items p)))
          = length (filter (\<lambda>a. getAttribute ''href'' a = Some ?r) (menu_items p))"
      using assms(4) by (rule filter_highlight)
    also have "\<dots> \<le> 1"
      using dist by (rule count_href_le_1)
    finally show "length (filter (has_class ''active'') (menu_items (menu_init pathname p))) \<le> 1"
      unfolding items .
  qed
  have links: "panel_links (panel_init pathname)
               = map (highlight ''bg-slate-800'' ?r) (map nav_link nav_hrefs)"
    by (simp add: panel_init_def)
  have e: "length (panel_links (panel_init pathname)) = length nav_hrefs"
    by (simp add: links)
  have f: "\<forall>i < length nav_hrefs.
          has_class ''bg-slate-800'' (panel_links (panel_init pathname) ! i)
          \<longleftrightarrow> nav_hrefs ! i = ?r"
    by (simp add: links has_class_highlight nav_link_props)
  have unmarked: "\<forall>a \<in> set (map nav_link nav_hrefs). \<not> has_class ''bg-slate-800'' a"
    by (auto simp: nav_link_props)
  have "List.map_filter (getAttribute ''href'') (map nav_link nav_hrefs) = nav_hrefs"
    by (simp add: map_filter_def nav_link_props comp_def)
  moreover have "distinct nav_hrefs"
    by (simp add: nav_hrefs_def)
  ultimately have "distinct (List.map_filter (getAttribute ''href'') (map nav_link nav_hrefs))"
    by simp
  then have "length (filter (\<lambda>a. getAttribute ''href'' a = Some ?r) (map nav_link nav_hrefs)) \<le> 1"
    by (rule count_href_le_1)
  moreover have "length (filter (has_class ''bg-slate-800'')
                   (map (highlight ''bg-slate-800'' ?r) (map nav_link nav_hrefs)))
          = length (filter (\<lambda>a. getAttribute ''href'' a = Some ?r) (map nav_link nav_hrefs))"
    using unmarked by (rule filter_highlight)
  ultimately have g:
    "length (filter (has_class ''bg-slate-800'') (panel_links (panel_init pathname))) \<le> 1"
    unfolding links by simp
  from a b c d e f g show ?thesis by blast
qed

text \<open>
  The scenario of the specification: the path \<open>/events/\<close> and links to \<open>/\<close>, \<open>/events\<close> and
  \<open>/ipx\<close>; the second link alone ends active.
\<close>

theorem highlight_current_route_witness:
  "menuBtn (sample_page [''/'', ''/events'', ''/ipx'']) \<noteq> None
   \<and> sidebar (sample_page [''/'', ''/events'', ''/ipx'']) \<noteq> None
   \<and> overlay (sample_page [''/'', ''/events'', ''/ipx'']) \<noteq> None
   \<and> list_all (\<lambda>a. \<not> has_class ''active'' a)
         (menu_items (sample_page [''/'', ''/events'', ''/ipx'']))
   \<and> distinct (List.map_filter (getAttribute ''href'')
         (menu_items (sample_page [''/'', ''/events'', ''/ipx''])))
   \<and> \<not> has_class ''active''
         (menu_items (menu_init ''/events/'' (sample_page [''/'', ''/events'', ''/ipx''])) ! 0)
   \<and> has_class ''active''
         (menu_items (menu_init ''/events/'' (sample_page [''/'', ''/events'', ''/ipx''])) ! 1)
   \<and> \<not> has_class ''active''
         (menu_items (menu_init ''/events/'' (sample_page [''/'', ''/events'', ''/ipx''])) ! 2)
   \<and> length (filter (has_class ''active'')
         (menu_items (menu_init ''/events/'' (sample_page [''/'', ''/events'', ''/ipx''])))) \<le> 1"
proof -
  let ?p = "sample_page [''/'', ''/events'', ''/ipx'']"
  have h1: "menuBtn ?p \<noteq> None" and h2: "sidebar ?p \<noteq> None" and h3: "overlay ?p \<noteq> None"
    by (simp_all add: sample_page_def)
  have h4: "\<forall>a \<in> set (menu_items ?p). \<not> has_class ''active'' a"
    by code_simp
  have d: "distinct (List.map_filter (getAttribute ''href'') (menu_items ?p))"
    by code_simp
  have len: "length (menu_items ?p) = 3"
    by (simp add: sample_page_def)
  have hrefs: "getAttribute ''href'' (menu_items ?p ! 0) \<noteq> Some (current_path ''/events/'')"
    "getAttribute ''href'' (menu_items ?p ! 1) = Some (current_path ''/events/'')"
    "getAttribute ''href'' (menu_items ?p ! 2) \<noteq> Some (current_path ''/events/'')"
    by code_simp+
  note t = highlight_current_route [OF h1 h2 h3 h4, of "''/events/''"]
  from t have marks: "\<forall>i < length (menu_items ?p).
          has_class ''active'' (menu_items (menu_init ''/events/'' ?p) ! i)
          \<longleftrightarrow> getAttribute ''href'' (menu_items ?p ! i) = Some (current_path ''/events/'')"
    by blast
  have m0: "\<not> has_class ''active'' (menu_items (menu_init ''/events/'' ?p) ! 0)"
    using marks [rule_format, of 0] len hrefs(1) by simp
  have m1: "has_class ''active'' (menu_items (menu_init ''/events/'' ?p) ! 1)"
    using marks [rule_format, of 1] len hrefs(2) by simp
  have m2: "\<not> has_class ''active'' (menu_items (menu_init ''/events/'' ?p) ! 2)"
    using marks [rule_format, of 2] len hrefs(3) by simp
  from t d have "length (filter (has_class ''active'') (menu_items (menu_init ''/events/'' ?p))) \<le> 1"
    by blast
  with h1 h2 h3 h4 d m0 m1 m2 show ?thesis by (simp add: list_all_iff)
qed

text \<open>
  The claim as first worded has at most one link marked on every page. With two links to
  \<open>/events\<close>, both are marked.
\<close>

theorem highlight_current_route_counterexample:
  "current_path ''/events/'' = ''/events''
   \<and> length (filter (has_class ''active'')
        (menu_items (menu_init ''/events/'' (sample_page [''/events'', ''/events''])))) = 2"
  by code_simp

end
